theory Spec2Isabelle
  imports Main "HOL-Library.Word"
begin

unbundle bit_operations_syntax

section \<open>JavaScript values used by the asset functions\<close>

text \<open>
  A JavaScript string is a sequence of 16-bit code units; \<open>charCodeAt\<close> reads one of
  them as a number between 0 and 65535. The operators \<open>^\<close>, \<open>&\<close> and \<open>Math.imul\<close>
  work on 32-bit integers, \<open>>>>\<close> reads its left operand as unsigned.
\<close>

type_synonym int32 = "32 word"
type_synonym jsstring = "16 word list"

definition js_string :: "string \<Rightarrow> jsstring" where
  "js_string s = map of_char s"

text \<open>
  The values a caller can hand to the library. \<open>JScene n\<close> is a scene object of the
  engine (its \<open>load\<close> member is the engine's loader); \<open>JObject\<close> is any other object,
  one without a \<open>load\<close> member, such as \<open>{}\<close> or an array.
\<close>

datatype jsval =
    JUndefined
  | JNull
  | JBoolean bool
  | JNumber int
  | JString jsstring
  | JFunction
  | JObject
  | JScene nat

fun typeof :: "jsval \<Rightarrow> string" where
  "typeof JUndefined = ''undefined''"
| "typeof JNull = ''object''"
| "typeof (JBoolean b) = ''boolean''"
| "typeof (JNumber n) = ''number''"
| "typeof (JString s) = ''string''"
| "typeof JFunction = ''function''"
| "typeof JObject = ''object''"
| "typeof (JScene n) = ''object''"

datatype js_error =
    Error string
  | TypeError

section \<open>The helper \<open>cyrb53\<close>\<close>

text \<open>\<open>ToInt32\<close> of an integral number: its value modulo \<open>2 ^ 32\<close>.\<close>

definition ToInt32 :: "int \<Rightarrow> int32" where
  "ToInt32 n = word_of_int n"

definition imul :: "int32 \<Rightarrow> int32 \<Rightarrow> int32" where
  "imul a b = a * b"

text \<open>\<open>a >>> n\<close>: the shift count is taken modulo 32, zeros come in from the left.\<close>

definition ushr :: "int32 \<Rightarrow> nat \<Rightarrow> int32" where
  "ushr a n = drop_bit (n mod 32) a"

text \<open>
  The \<open>for\<close> loop of \<open>cyrb53\<close> over the code units of \<open>str\<close>, from the first to the
  last, on the pair of accumulators \<open>(h1, h2)\<close>.
\<close>

fun cyrb53_loop :: "jsstring \<Rightarrow> int32 \<times> int32 \<Rightarrow> int32 \<times> int32" where
  "cyrb53_loop [] (h1, h2) = (h1, h2)"
| "cyrb53_loop (ch # str) (h1, h2) =
     cyrb53_loop str
       (imul (h1 XOR ucast ch) 2654435761, imul (h2 XOR ucast ch) 1597334677)"

text \<open>The four assignments after the loop.\<close>

definition cyrb53_mix :: "int32 \<times> int32 \<Rightarrow> int32 \<times> int32" where
  "cyrb53_mix h =
     (let (h1, h2) = h;
          h1 = imul (h1 XOR ushr h1 16) 2246822507;
          h1 = h1 XOR imul (h2 XOR ushr h2 13) 3266489909;
          h2 = imul (h2 XOR ushr h2 16) 2246822507;
          h2 = h2 XOR imul (h1 XOR ushr h1 13) 3266489909
      in (h1, h2))"

text \<open>
  The number before \<open>.toString()\<close>. The result of \<open>&\<close> is read as a signed 32-bit
  integer, the result of \<open>>>>\<close> as an unsigned one; the product and the sum are taken
  in the integers, which is what the source's double arithmetic computes as long as the
  values stay below \<open>2 ^ 53\<close> in absolute value (\<open>cyrb53_number_le\<close> below).
\<close>

definition cyrb53_number :: "jsstring \<Rightarrow> int \<Rightarrow> int" where
  "cyrb53_number str seed =
     (let (h1, h2) =
            cyrb53_mix (cyrb53_loop str (0xdeadbeef XOR ToInt32 seed, 0x41c6ce57 XOR ToInt32 seed))
      in 4294967296 * sint (2097151 AND h2) + uint (ushr h1 0))"

text \<open>
  \<open>Number.prototype.toString\<close> on an integer below \<open>10 ^ 21\<close> in absolute value:
  its decimal digits, most significant first, after a minus sign when it is negative.
\<close>

definition digit_char :: "nat \<Rightarrow> char" where
  "digit_char d = char_of (48 + d)"

fun digits :: "nat \<Rightarrow> string" where
  "digits n = (if n < 10 then [digit_char n] else digits (n div 10) @ [digit_char (n mod 10)])"

declare digits.simps [simp del]

definition toString :: "int \<Rightarrow> string" where
  "toString n = (if n < 0 then CHR ''-'' # digits (nat (- n)) else digits (nat n))"

text \<open>\<open>cyrb53(str, seed)\<close>; a call without \<open>seed\<close> is \<open>cyrb53 str 0\<close>.\<close>

definition cyrb53 :: "jsstring \<Rightarrow> int \<Rightarrow> string" where
  "cyrb53 str seed = toString (cyrb53_number str seed)"

section \<open>The asset registry and the two load functions\<close>

text \<open>A request handed to the loader of scene \<open>n\<close>: the key, the path and, for a
  spritesheet, the frame configuration.\<close>

datatype load_request =
    LoadImage nat string jsstring
  | LoadSpritesheet nat string jsstring jsval jsval jsval jsval

text \<open>
  The state the load functions touch: the array \<open>PP.assets.list_images_id\<close>, the lines
  written with \<open>console.warn\<close>, and the requests the engine's loaders have received.
\<close>

record pp_state =
  list_images_id :: "string list"
  console_warn :: "jsstring list"
  loader_queue :: "load_request list"

definition PP_init :: pp_state where
  "PP_init = \<lparr>list_images_id = [], console_warn = [], loader_queue = []\<rparr>"

text \<open>The object \<open>{id: ..., type: ...}\<close> the load functions return.\<close>

record asset =
  asset_id :: string
  asset_type :: string

text \<open>\<open>PP.debug.assert\<close>\<close>

definition assert :: "bool \<Rightarrow> string \<Rightarrow> js_error + unit" where
  "assert condition message =
     (if \<not> condition then Inl (Error (''Assertion failed: '' @ message)) else Inr ())"

text \<open>
  \<open>scene.load.image(key, path)\<close> and \<open>scene.load.spritesheet(key, path, {...})\<close>.
  Reading \<open>load\<close> from \<open>null\<close> or \<open>undefined\<close> throws a TypeError; on any other value
  that is not a scene \<open>scene.load\<close> is \<open>undefined\<close> and reading its member throws a
  TypeError as well.
\<close>

fun scene_load_image :: "jsval \<Rightarrow> string \<Rightarrow> jsstring \<Rightarrow> pp_state \<Rightarrow> js_error + pp_state" where
  "scene_load_image (JScene n) key path st =
     Inr (st\<lparr>loader_queue := loader_queue st @ [LoadImage n key path]\<rparr>)"
| "scene_load_image _ key path st = Inl TypeError"

fun scene_load_spritesheet ::
  "jsval \<Rightarrow> string \<Rightarrow> jsstring \<Rightarrow> jsval \<Rightarrow> jsval \<Rightarrow> jsval \<Rightarrow> jsval \<Rightarrow> pp_state \<Rightarrow> js_error + pp_state" where
  "scene_load_spritesheet (JScene n) key path fw fh sf ef st =
     Inr (st\<lparr>loader_queue := loader_queue st @ [LoadSpritesheet n key path fw fh sf ef]\<rparr>)"
| "scene_load_spritesheet _ key path fw fh sf ef st = Inl TypeError"

definition duplicate_warning :: "jsstring \<Rightarrow> jsstring" where
  "duplicate_warning image_path =
     js_string ''WARNING: you are trying to load multiple times the same image/spritesheet (''
     @ image_path @ js_string ''). Aborting this load request.''"

text \<open>
  The part of both load functions after the assertions, where \<open>image_path\<close> is a
  string: \<open>tag\<close> is the \<open>type\<close> of the returned object and \<open>enqueue\<close> the call on
  the scene's loader.
\<close>

definition load_checked ::
  "string \<Rightarrow> (string \<Rightarrow> pp_state \<Rightarrow> js_error + pp_state) \<Rightarrow> jsstring \<Rightarrow> pp_state
     \<Rightarrow> (js_error + asset) \<times> pp_state" where
  "load_checked tag enqueue image_path st =
     (let url_hash = cyrb53 image_path 0 in
      if url_hash \<in> set (list_images_id st) then
        (Inr \<lparr>asset_id = url_hash, asset_type = tag\<rparr>,
         st\<lparr>console_warn := console_warn st @ [duplicate_warning image_path]\<rparr>)
      else
        let st1 = st\<lparr>list_images_id := list_images_id st @ [url_hash]\<rparr> in
        case enqueue url_hash st1 of
          Inl e \<Rightarrow> (Inl e, st1)
        | Inr st2 \<Rightarrow> (Inr \<lparr>asset_id = url_hash, asset_type = tag\<rparr>, st2))"

text \<open>
  \<open>PP.assets.image.load(scene, image_path)\<close>. Past the second assertion
  \<open>image_path\<close> is a string, so the last branch of the \<open>case\<close> is never taken.
\<close>

definition image_load :: "pp_state \<Rightarrow> jsval \<Rightarrow> jsval \<Rightarrow> (js_error + asset) \<times> pp_state" where
  "image_load st scene image_path =
     (case assert (typeof scene = ''object'')
             ''Parameter error: scene should be a scene object.'' of
        Inl e \<Rightarrow> (Inl e, st)
      | Inr _ \<Rightarrow>
     (case assert (typeof image_path = ''string'')
             ''Parameter error: image_path should be a string.'' of
        Inl e \<Rightarrow> (Inl e, st)
      | Inr _ \<Rightarrow>
     (case image_path of
        JString p \<Rightarrow> load_checked ''image'' (\<lambda>key. scene_load_image scene key p) p st
      | _ \<Rightarrow> (Inl TypeError, st))))"

text \<open>\<open>PP.assets.sprite.load_spritesheet(scene, image_path, frame_width, frame_height,
  start_frame, end_frame)\<close>\<close>

definition load_spritesheet ::
  "pp_state \<Rightarrow> jsval \<Rightarrow> jsval \<Rightarrow> jsval \<Rightarrow> jsval \<Rightarrow> jsval \<Rightarrow> jsval \<Rightarrow> (js_error + asset) \<times> pp_state" where
  "load_spritesheet st scene image_path frame_width frame_height start_frame end_frame =
     (case assert (typeof scene = ''object'')
             ''Parameter error: scene should be a scene object.'' of
        Inl e \<Rightarrow> (Inl e, st)
      | Inr _ \<Rightarrow>
     (case assert (typeof image_path = ''string'')
             ''Parameter error: image_path should be a string.'' of
        Inl e \<Rightarrow> (Inl e, st)
      | Inr _ \<Rightarrow>
     (case assert (typeof frame_width = ''number'')
             ''Parameter error: frame_width should be a number.'' of
        Inl e \<Rightarrow> (Inl e, st)
      | Inr _ \<Rightarrow>
     (case assert (typeof frame_height = ''number'')
             ''Parameter error: frame_height should be a number.'' of
        Inl e \<Rightarrow> (Inl e, st)
      | Inr _ \<Rightarrow>
     (case assert (typeof start_frame = ''number'')
             ''Parameter error: start_frame should be a number.'' of
        Inl e \<Rightarrow> (Inl e, st)
      | Inr _ \<Rightarrow>
     (case assert (typeof end_frame = ''number'')
             ''Parameter error: end_frame should be a number.'' of
        Inl e \<Rightarrow> (Inl e, st)
      | Inr _ \<Rightarrow>
     (case image_path of
        JString p \<Rightarrow>
          load_checked ''sprite''
            (\<lambda>key. scene_load_spritesheet scene key p frame_width frame_height start_frame end_frame)
            p st
      | _ \<Rightarrow> (Inl TypeError, st))))))))"

text \<open>
  The calls that read or write \<open>PP.assets.list_images_id\<close>; no other function of the
  library mentions it.
\<close>

datatype call =
    ImageLoad jsval jsval
  | SpriteLoadSpritesheet jsval jsval jsval jsval jsval jsval

fun exec :: "pp_state \<Rightarrow> call \<Rightarrow> pp_state" where
  "exec st (ImageLoad scene image_path) = snd (image_load st scene image_path)"
| "exec st (SpriteLoadSpritesheet scene image_path fw fh sf ef) =
     snd (load_spritesheet st scene image_path fw fh sf ef)"

definition exec_all :: "pp_state \<Rightarrow> call list \<Rightarrow> pp_state" where
  "exec_all st cs = foldl exec st cs"

section \<open>Notions of the specification\<close>

text \<open>
  A string is parseable as a non-negative integer when it is a non-empty sequence of
  the digits \<open>0\<close> to \<open>9\<close>; its value is read from the most significant digit on.
\<close>

definition is_digit :: "char \<Rightarrow> bool" where
  "is_digit c = (48 \<le> (of_char c :: nat) \<and> (of_char c :: nat) \<le> 57)"

fun parse_digits :: "string \<Rightarrow> nat \<Rightarrow> nat option" where
  "parse_digits [] acc = Some acc"
| "parse_digits (c # cs) acc =
     (if is_digit c then parse_digits cs (10 * acc + (of_char c - 48)) else None)"

definition parse_decimal :: "string \<Rightarrow> nat option" where
  "parse_decimal s = (if s = [] then None else parse_digits s 0)"

text \<open>
  The algorithm of the specification, in the natural numbers with the reduction modulo
  \<open>2 ^ 32\<close> written out. One lane is advanced per character by an exclusive or with
  the character code followed by a multiplication with the lane's constant; the two lanes
  do not meet before the final mixing.
\<close>

definition spec_advance :: "nat \<Rightarrow> nat \<Rightarrow> nat \<Rightarrow> nat" where
  "spec_advance k c h = ((h XOR c) * k) mod 2 ^ 32"

definition spec_xor_shift_mul :: "nat \<Rightarrow> nat \<Rightarrow> nat \<Rightarrow> nat" where
  "spec_xor_shift_mul s k h = ((h XOR (h div 2 ^ s)) * k) mod 2 ^ 32"

definition spec_lane :: "nat \<Rightarrow> nat \<Rightarrow> nat list \<Rightarrow> nat" where
  "spec_lane k h0 codes = fold (spec_advance k) codes h0"

definition spec_computeId :: "jsstring \<Rightarrow> int \<Rightarrow> string" where
  "spec_computeId path seed =
     (let s = nat (seed mod 2 ^ 32);
          codes = map unat path;
          a = spec_lane 2654435761 (3735928559 XOR s) codes;
          b = spec_lane 1597334677 (1103547991 XOR s) codes;
          a' = spec_xor_shift_mul 16 2246822507 a XOR spec_xor_shift_mul 13 3266489909 b;
          b' = spec_xor_shift_mul 16 2246822507 b XOR spec_xor_shift_mul 13 3266489909 a'
      in toString (int ((b' mod 2 ^ 21) * 2 ^ 32 + a')))"

section \<open>Auxiliary facts\<close>

subsection \<open>The range of the number and its decimal form\<close>

lemma low21_mask: "(2097151 :: int32) = mask 21"
  by (simp add: mask_eq_exp_minus_1)

lemma uint_low21: "uint ((2097151 :: int32) AND h) < 2097152"
proof -
  have "uint (h AND mask 21) < 2 ^ 21" by (rule and_mask_lt_2p)
  then show ?thesis by (simp add: low21_mask and.commute)
qed

lemma sint_low21: "sint ((2097151 :: int32) AND h) = uint ((2097151 :: int32) AND h)"
proof -
  have "uint ((2097151 :: int32) AND h) < 2 ^ 31"
    using uint_low21 [of h] by simp
  moreover have "- (2 ^ 31) \<le> uint ((2097151 :: int32) AND h)"
    by (rule order_trans [of _ 0]) simp_all
  ultimately have "signed_take_bit 31 (uint ((2097151 :: int32) AND h)) = uint ((2097151 :: int32) AND h)"
    by (rule signed_take_bit_int_eq_self [rotated])
  then show ?thesis
    by (simp add: sint_uint)
qed

lemma uint_ushr0: "uint (ushr h 0) = uint h"
  by (simp add: ushr_def)

lemma cyrb53_number_alt:
  "cyrb53_number str seed =
     (let (h1, h2) =
            cyrb53_mix (cyrb53_loop str (0xdeadbeef XOR ToInt32 seed, 0x41c6ce57 XOR ToInt32 seed))
      in 4294967296 * uint (2097151 AND h2) + uint h1)"
  by (simp add: cyrb53_number_def sint_low21 uint_ushr0 Let_def split: prod.splits)

lemma cyrb53_number_nonneg: "0 \<le> cyrb53_number str seed"
  by (simp add: cyrb53_number_alt Let_def split: prod.splits)

lemma cyrb53_number_le: "cyrb53_number str seed \<le> 9007199254740991"
proof -
  obtain h1 h2 where h: "cyrb53_mix (cyrb53_loop str (0xdeadbeef XOR ToInt32 seed, 0x41c6ce57 XOR ToInt32 seed)) = (h1, h2)"
    by (cases "cyrb53_mix (cyrb53_loop str (0xdeadbeef XOR ToInt32 seed, 0x41c6ce57 XOR ToInt32 seed))")
  have a: "uint ((2097151 :: int32) AND h2) \<le> 2097151" using uint_low21 [of h2] by simp
  have b: "uint h1 \<le> 4294967295" using uint_bounded [of h1] by simp
  have "cyrb53_number str seed = 4294967296 * uint (2097151 AND h2) + uint h1"
    by (simp add: cyrb53_number_alt h)
  with a b show ?thesis by simp
qed

lemma is_digit_digit_char: "d < 10 \<Longrightarrow> is_digit (digit_char d)"
  by (simp add: is_digit_def digit_char_def)

lemma of_char_digit_char: "d < 10 \<Longrightarrow> (of_char (digit_char d) :: nat) - 48 = d"
  by (simp add: digit_char_def)

lemma parse_digits_append:
  "parse_digits (xs @ ys) acc =
     (case parse_digits xs acc of None \<Rightarrow> None | Some v \<Rightarrow> parse_digits ys v)"
  by (induction xs arbitrary: acc) auto

lemma parse_digits_digits: "parse_digits (digits n) 0 = Some n"
proof (induction n rule: digits.induct)
  case (1 n)
  show ?case
  proof (cases "n < 10")
    case True
    then show ?thesis
      by (subst digits.simps) (simp add: is_digit_digit_char of_char_digit_char)
  next
    case False
    with 1 have ih: "parse_digits (digits (n div 10)) 0 = Some (n div 10)" by simp
    have m: "n mod 10 < 10" by simp
    from False have "digits n = digits (n div 10) @ [digit_char (n mod 10)]"
      by (subst digits.simps) simp
    then show ?thesis
      by (simp add: parse_digits_append ih is_digit_digit_char [OF m] of_char_digit_char [OF m])
  qed
qed

lemma digits_nonempty: "digits n \<noteq> []"
  by (subst digits.simps) simp

lemma parse_decimal_toString: "0 \<le> n \<Longrightarrow> parse_decimal (toString n) = Some (nat n)"
  by (simp add: parse_decimal_def toString_def digits_nonempty parse_digits_digits)

lemmas cyrb53_eval = cyrb53_def cyrb53_number_def cyrb53_mix_def js_string_def imul_def
  ushr_def ToInt32_def toString_def digits.simps Let_def


lemma digit_char_simps:
  "digit_char 0 = CHR ''0''" "digit_char 1 = CHR ''1''" "digit_char 2 = CHR ''2''"
  "digit_char 3 = CHR ''3''" "digit_char 4 = CHR ''4''" "digit_char 5 = CHR ''5''"
  "digit_char 6 = CHR ''6''" "digit_char 7 = CHR ''7''" "digit_char 8 = CHR ''8''"
  "digit_char 9 = CHR ''9''" "digit_char (Suc 0) = CHR ''1''"
  by (simp_all add: digit_char_def char_of_def bit_0)

lemma cyrb53_number_hero: "cyrb53_number (js_string ''hero.png'') 0 = 8079230315752411"
  by (simp add: cyrb53_number_def cyrb53_mix_def js_string_def imul_def ushr_def ToInt32_def)

lemma cyrb53_hero: "cyrb53 (js_string ''hero.png'') 0 = ''8079230315752411''"
  by (simp add: cyrb53_eval digit_char_simps)


subsection \<open>The word-level hash read as natural numbers\<close>

lemma unat_imul: "unat (imul a b) = (unat a * unat b) mod 2 ^ 32"
  by (simp add: imul_def unat_word_ariths)

lemma unat_ucast_code_unit: "unat (ucast (ch :: 16 word) :: int32) = unat ch"
proof -
  have "unat ch < 2 ^ 16" using unsigned_less [of ch] by simp
  then have "unat ch < 2 ^ 32" by simp
  then show ?thesis
    by (simp add: unsigned_ucast_eq take_bit_nat_eq_self)
qed

lemma unat_advance:
  "unat (imul (h XOR ucast (ch :: 16 word)) k) = spec_advance (unat k) (unat ch) (unat h)"
  by (simp add: unat_imul spec_advance_def unsigned_xor_eq unat_ucast_code_unit)

lemma unat_cyrb53_loop:
  "unat (fst (cyrb53_loop str (h1, h2))) = spec_lane 2654435761 (unat h1) (map unat str)
   \<and> unat (snd (cyrb53_loop str (h1, h2))) = spec_lane 1597334677 (unat h2) (map unat str)"
proof (induction str arbitrary: h1 h2)
  case Nil
  show ?case by (simp add: spec_lane_def)
next
  case (Cons ch str)
  have k1: "unat (2654435761 :: int32) = 2654435761" by simp
  have k2: "unat (1597334677 :: int32) = 1597334677" by simp
  show ?case
    using Cons.IH [of "imul (h1 XOR ucast ch) 2654435761" "imul (h2 XOR ucast ch) 1597334677"]
    by (simp add: spec_lane_def unat_advance k1 k2)
qed

lemma unat_ushr: "s < 32 \<Longrightarrow> unat (ushr h s) = unat h div 2 ^ s"
proof -
  assume "s < 32"
  then have "unat (ushr h s) = unat (drop_bit s h)" by (simp add: ushr_def)
  also have "\<dots> = drop_bit s (unat h)" by (rule unat_drop_bit_eq)
  also have "\<dots> = unat h div 2 ^ s" by (rule drop_bit_eq_div)
  finally show ?thesis .
qed

lemma unat_xor_shift_mul:
  "s < 32 \<Longrightarrow> unat (imul (h XOR ushr h s) k) = spec_xor_shift_mul s (unat k) (unat h)"
  by (simp add: unat_imul spec_xor_shift_mul_def unsigned_xor_eq unat_ushr)

lemma unat_ToInt32: "unat (ToInt32 seed) = nat (seed mod 2 ^ 32)"
  by (simp add: ToInt32_def unat_eq_nat_uint uint_word_of_int del: nat_uint_eq)

lemma unat_low21: "unat ((2097151 :: int32) AND h) = unat h mod 2 ^ 21"
proof -
  have "(2097151 :: int32) AND h = take_bit 21 h"
    by (simp add: low21_mask take_bit_eq_mask and.commute)
  then have "unat ((2097151 :: int32) AND h) = unat (take_bit 21 h)" by (rule arg_cong)
  also have "\<dots> = take_bit 21 (unat h)" by (rule unsigned_take_bit_eq)
  also have "\<dots> = unat h mod 2 ^ 21" by (rule take_bit_eq_mod)
  finally show ?thesis .
qed

lemma cyrb53_combine_unat:
  "4294967296 * uint ((2097151 :: int32) AND h2) + uint (h1 :: int32)
     = int ((unat h2 mod 2 ^ 21) * 2 ^ 32 + unat h1)"
proof -
  have "uint ((2097151 :: int32) AND h2) = int (unat h2 mod 2 ^ 21)"
    by (simp only: uint_nat unat_low21)
  then show ?thesis by simp
qed

lemma cyrb53_number_unat:
  "cyrb53_number str seed =
     (let (h1, h2) =
            cyrb53_mix (cyrb53_loop str (0xdeadbeef XOR ToInt32 seed, 0x41c6ce57 XOR ToInt32 seed))
      in int ((unat h2 mod 2 ^ 21) * 2 ^ 32 + unat h1))"
  by (simp only: cyrb53_number_alt cyrb53_combine_unat)

lemma unat_cyrb53_mix:
  "cyrb53_mix (h1, h2) = (g1, g2) \<Longrightarrow>
   unat g1 = spec_xor_shift_mul 16 2246822507 (unat h1) XOR spec_xor_shift_mul 13 3266489909 (unat h2)
   \<and> unat g2 = spec_xor_shift_mul 16 2246822507 (unat h2) XOR spec_xor_shift_mul 13 3266489909 (unat g1)"
proof -
  assume a: "cyrb53_mix (h1, h2) = (g1, g2)"
  have k1: "unat (2246822507 :: int32) = 2246822507" by simp
  have k2: "unat (3266489909 :: int32) = 3266489909" by simp
  from a have g1: "g1 = imul (h1 XOR ushr h1 16) 2246822507 XOR imul (h2 XOR ushr h2 13) 3266489909"
    by (simp add: cyrb53_mix_def Let_def)
  from a have g2: "g2 = imul (h2 XOR ushr h2 16) 2246822507 XOR imul (g1 XOR ushr g1 13) 3266489909"
    by (auto simp add: cyrb53_mix_def Let_def)
  have x: "unat (imul (h XOR ushr h 16) 2246822507) = spec_xor_shift_mul 16 2246822507 (unat h)" for h
    using unat_xor_shift_mul [of 16 h 2246822507] by (simp add: k1)
  have y: "unat (imul (h XOR ushr h 13) 3266489909) = spec_xor_shift_mul 13 3266489909 (unat h)" for h
    using unat_xor_shift_mul [of 13 h 3266489909] by (simp add: k2)
  have u1: "unat g1 = spec_xor_shift_mul 16 2246822507 (unat h1) XOR spec_xor_shift_mul 13 3266489909 (unat h2)"
    by (subst g1) (simp only: unsigned_xor_eq x y)
  have u2: "unat g2 = spec_xor_shift_mul 16 2246822507 (unat h2) XOR spec_xor_shift_mul 13 3266489909 (unat g1)"
    by (subst g2) (simp only: unsigned_xor_eq x y)
  from u1 u2 show ?thesis by (rule conjI)
qed

subsection \<open>Values of the hash at the inputs used below\<close>

lemmas cyrb53_number_eval =
  cyrb53_number_def cyrb53_mix_def js_string_def imul_def ushr_def ToInt32_def

lemmas toString_eval = toString_def digits.simps digit_char_simps

lemma cyrb53_empty: "cyrb53 [] 0 = ''3338908027751811''"
  by (simp add: cyrb53_def cyrb53_number_eval toString_eval)

lemma cyrb53_hero_seed1: "cyrb53 (js_string ''hero.png'') 1 = ''2295361794501766''"
  by (simp add: cyrb53_def cyrb53_number_eval toString_eval)

lemma cyrb53_a: "cyrb53 (js_string ''a'') 0 = ''7929297801672961''"
  by (simp add: cyrb53_def cyrb53_number_eval toString_eval)

lemma cyrb53_qolz1a: "cyrb53 (js_string ''qolz1a.png'') 0 = ''7546620410349312''"
  by (simp add: cyrb53_def cyrb53_number_eval toString_eval)

lemma cyrb53_gysime: "cyrb53 (js_string ''gysime.png'') 0 = ''7546620410349312''"
  by (simp add: cyrb53_def cyrb53_number_eval toString_eval)

lemma paths_differ: "js_string ''qolz1a.png'' \<noteq> js_string ''gysime.png''"
  by (simp add: js_string_def)

subsection \<open>The two load functions\<close>

lemma typeof_string_iff: "typeof v = ''string'' \<longleftrightarrow> (\<exists>p. v = JString p)"
  by (cases v) simp_all

lemma assert_True: "assert True m = Inr ()"
  by (simp add: assert_def)

lemma assert_False: "assert False m = Inl (Error (''Assertion failed: '' @ m))"
  by (simp add: assert_def)

lemma image_load_checked:
  "typeof scene = ''object'' \<Longrightarrow>
   image_load st scene (JString p) =
     load_checked ''image'' (\<lambda>key. scene_load_image scene key p) p st"
  by (simp add: image_load_def assert_True)

lemma load_spritesheet_checked:
  "typeof scene = ''object'' \<Longrightarrow> typeof fw = ''number'' \<Longrightarrow> typeof fh = ''number'' \<Longrightarrow>
   typeof sf = ''number'' \<Longrightarrow> typeof ef = ''number'' \<Longrightarrow>
   load_spritesheet st scene (JString p) fw fh sf ef =
     load_checked ''sprite'' (\<lambda>key. scene_load_spritesheet scene key p fw fh sf ef) p st"
  by (simp add: load_spritesheet_def assert_True)

lemma load_checked_duplicate:
  "cyrb53 p 0 \<in> set (list_images_id st) \<Longrightarrow>
   load_checked tag enqueue p st =
     (Inr \<lparr>asset_id = cyrb53 p 0, asset_type = tag\<rparr>,
      st\<lparr>console_warn := console_warn st @ [duplicate_warning p]\<rparr>)"
  by (simp add: load_checked_def)

lemma load_checked_fresh:
  "cyrb53 p 0 \<notin> set (list_images_id st) \<Longrightarrow>
   load_checked tag enqueue p st =
     (case enqueue (cyrb53 p 0) (st\<lparr>list_images_id := list_images_id st @ [cyrb53 p 0]\<rparr>) of
        Inl e \<Rightarrow> (Inl e, st\<lparr>list_images_id := list_images_id st @ [cyrb53 p 0]\<rparr>)
      | Inr st2 \<Rightarrow> (Inr \<lparr>asset_id = cyrb53 p 0, asset_type = tag\<rparr>, st2))"
  by (simp add: load_checked_def Let_def)

lemma image_load_fresh:
  "cyrb53 p 0 \<notin> set (list_images_id st) \<Longrightarrow>
   image_load st (JScene n) (JString p) =
     (Inr \<lparr>asset_id = cyrb53 p 0, asset_type = ''image''\<rparr>,
      st\<lparr>list_images_id := list_images_id st @ [cyrb53 p 0],
         loader_queue := loader_queue st @ [LoadImage n (cyrb53 p 0) p]\<rparr>)"
  by (simp add: image_load_checked load_checked_fresh)

lemma image_load_duplicate:
  "typeof scene = ''object'' \<Longrightarrow> cyrb53 p 0 \<in> set (list_images_id st) \<Longrightarrow>
   image_load st scene (JString p) =
     (Inr \<lparr>asset_id = cyrb53 p 0, asset_type = ''image''\<rparr>,
      st\<lparr>console_warn := console_warn st @ [duplicate_warning p]\<rparr>)"
  by (simp add: image_load_checked load_checked_duplicate)


lemma load_spritesheet_duplicate:
  "typeof scene = ''object'' \<Longrightarrow> typeof fw = ''number'' \<Longrightarrow> typeof fh = ''number'' \<Longrightarrow>
   typeof sf = ''number'' \<Longrightarrow> typeof ef = ''number'' \<Longrightarrow>
   cyrb53 p 0 \<in> set (list_images_id st) \<Longrightarrow>
   load_spritesheet st scene (JString p) fw fh sf ef =
     (Inr \<lparr>asset_id = cyrb53 p 0, asset_type = ''sprite''\<rparr>,
      st\<lparr>console_warn := console_warn st @ [duplicate_warning p]\<rparr>)"
  by (simp add: load_spritesheet_checked load_checked_duplicate)

text \<open>What a call leaves in the registry, whatever its outcome.\<close>

lemma scene_load_image_registry:
  "scene_load_image scene key p st = Inr st2 \<Longrightarrow> list_images_id st2 = list_images_id st"
  by (cases scene) auto

lemma scene_load_spritesheet_registry:
  "scene_load_spritesheet scene key p fw fh sf ef st = Inr st2 \<Longrightarrow>
   list_images_id st2 = list_images_id st"
  by (cases scene) auto

lemma load_checked_registry:
  assumes "\<And>key s s2. enqueue key s = Inr s2 \<Longrightarrow> list_images_id s2 = list_images_id s"
  shows "list_images_id (snd (load_checked tag enqueue p st)) =
           (if cyrb53 p 0 \<in> set (list_images_id st) then list_images_id st
            else list_images_id st @ [cyrb53 p 0])"
proof (cases "cyrb53 p 0 \<in> set (list_images_id st)")
  case True
  then show ?thesis by (simp add: load_checked_duplicate)
next
  case False
  show ?thesis
  proof (cases "enqueue (cyrb53 p 0) (st\<lparr>list_images_id := list_images_id st @ [cyrb53 p 0]\<rparr>)")
    case (Inl e)
    with False show ?thesis by (simp add: load_checked_fresh)
  next
    case (Inr st2)
    from assms [OF Inr] Inr False show ?thesis by (simp add: load_checked_fresh)
  qed
qed

lemma load_checked_result:
  "load_checked tag enqueue p st = (Inr a, st') \<Longrightarrow>
   a = \<lparr>asset_id = cyrb53 p 0, asset_type = tag\<rparr>"
  by (auto simp add: load_checked_def Let_def split: if_splits sum.splits)

lemma image_load_registry:
  "list_images_id (snd (image_load st scene image_path)) = list_images_id st
   \<or> (\<exists>i. i \<notin> set (list_images_id st)
          \<and> list_images_id (snd (image_load st scene image_path)) = list_images_id st @ [i])"
proof (cases "typeof scene = ''object'' \<and> typeof image_path = ''string''")
  case False
  then show ?thesis by (auto simp add: image_load_def assert_def)
next
  case True
  then obtain p where p: "image_path = JString p" by (auto simp add: typeof_string_iff)
  have "list_images_id (snd (image_load st scene (JString p))) =
          (if cyrb53 p 0 \<in> set (list_images_id st) then list_images_id st
           else list_images_id st @ [cyrb53 p 0])"
    using True by (simp add: image_load_checked load_checked_registry scene_load_image_registry)
  then show ?thesis unfolding p by (cases "cyrb53 p 0 \<in> set (list_images_id st)") auto
qed

lemma load_spritesheet_registry:
  "list_images_id (snd (load_spritesheet st scene image_path fw fh sf ef)) = list_images_id st
   \<or> (\<exists>i. i \<notin> set (list_images_id st)
          \<and> list_images_id (snd (load_spritesheet st scene image_path fw fh sf ef))
              = list_images_id st @ [i])"
proof (cases "typeof scene = ''object'' \<and> typeof image_path = ''string'' \<and> typeof fw = ''number''
    \<and> typeof fh = ''number'' \<and> typeof sf = ''number'' \<and> typeof ef = ''number''")
  case False
  then show ?thesis by (auto simp add: load_spritesheet_def assert_def)
next
  case True
  then obtain p where p: "image_path = JString p" by (auto simp add: typeof_string_iff)
  have "list_images_id (snd (load_spritesheet st scene (JString p) fw fh sf ef)) =
          (if cyrb53 p 0 \<in> set (list_images_id st) then list_images_id st
           else list_images_id st @ [cyrb53 p 0])"
    using True
    by (simp add: load_spritesheet_checked load_checked_registry scene_load_spritesheet_registry)
  then show ?thesis unfolding p by (cases "cyrb53 p 0 \<in> set (list_images_id st)") auto
qed

lemma exec_registry:
  "list_images_id (exec st c) = list_images_id st
   \<or> (\<exists>i. i \<notin> set (list_images_id st) \<and> list_images_id (exec st c) = list_images_id st @ [i])"
  by (cases c) (simp_all add: image_load_registry load_spritesheet_registry)

lemma exec_all_registry: "\<exists>ys. list_images_id (exec_all st cs) = list_images_id st @ ys"
proof (induction cs arbitrary: st)
  case Nil
  show ?case by (simp add: exec_all_def)
next
  case (Cons c cs)
  from Cons.IH [of "exec st c"] obtain ys
    where ys: "list_images_id (exec_all (exec st c) cs) = list_images_id (exec st c) @ ys"
    by blast
  from exec_registry [of st c] obtain zs
    where zs: "list_images_id (exec st c) = list_images_id st @ zs"
    by auto
  have "exec_all st (c # cs) = exec_all (exec st c) cs" by (simp add: exec_all_def)
  with ys zs show ?case by simp
qed

lemma image_load_registered:
  "image_load st scene (JString p) = (Inr a, st') \<Longrightarrow>
   a = \<lparr>asset_id = cyrb53 p 0, asset_type = ''image''\<rparr> \<and> cyrb53 p 0 \<in> set (list_images_id st')"
proof -
  assume r: "image_load st scene (JString p) = (Inr a, st')"
  then have ob: "typeof scene = ''object''"
    by (auto simp add: image_load_def assert_def split: if_splits)
  from r ob have lc: "load_checked ''image'' (\<lambda>key. scene_load_image scene key p) p st = (Inr a, st')"
    by (simp add: image_load_checked)
  from load_checked_registry [of "\<lambda>key. scene_load_image scene key p" "''image''" p st] lc
  have "list_images_id st' =
          (if cyrb53 p 0 \<in> set (list_images_id st) then list_images_id st
           else list_images_id st @ [cyrb53 p 0])"
    by (simp add: scene_load_image_registry)
  then have "cyrb53 p 0 \<in> set (list_images_id st')"
    by (simp split: if_splits)
  with load_checked_result [OF lc] show ?thesis by simp
qed

lemma load_spritesheet_registered:
  "load_spritesheet st scene (JString p) fw fh sf ef = (Inr a, st') \<Longrightarrow>
   a = \<lparr>asset_id = cyrb53 p 0, asset_type = ''sprite''\<rparr>"
  by (auto simp add: load_spritesheet_def assert_def split: if_splits dest: load_checked_result)

lemma image_load_rejects:
  "typeof image_path \<noteq> ''string'' \<or> typeof scene \<noteq> ''object'' \<Longrightarrow>
   \<exists>m. image_load st scene image_path = (Inl (Error m), st)"
  by (auto simp add: image_load_def assert_def)

lemma image_load_null_fresh:
  "cyrb53 p 0 \<notin> set (list_images_id st) \<Longrightarrow>
   image_load st JNull (JString p) =
     (Inl TypeError, st\<lparr>list_images_id := list_images_id st @ [cyrb53 p 0]\<rparr>)"
  by (simp add: image_load_checked load_checked_fresh)

lemma cyrb53_seed_period: "cyrb53 p (s + 4294967296) = cyrb53 p s"
proof -
  have "ToInt32 (s + 4294967296) = ToInt32 s"
    by (simp add: ToInt32_def)
  then show ?thesis
    by (simp add: cyrb53_def cyrb53_number_def)
qed

section \<open>The claims\<close>

text \<open>
  C2. For every string and every seed, \<open>cyrb53\<close> returns the decimal representation of
  a non-negative integer that is at most 9007199254740991: the returned string parses as
  the number computed before \<open>toString\<close>, and that number lies between 0 and
  \<open>2 ^ 53 - 1\<close>.
\<close>

theorem cyrb53_fits_53_bits:
  "parse_decimal (cyrb53 str seed) = Some (nat (cyrb53_number str seed))
   \<and> 0 \<le> cyrb53_number str seed \<and> cyrb53_number str seed \<le> 9007199254740991"
  by (simp add: cyrb53_def parse_decimal_toString cyrb53_number_nonneg cyrb53_number_le)

theorem cyrb53_fits_53_bits_witness:
  "parse_decimal ''8079230315752411'' = Some 8079230315752411
   \<and> (8079230315752411 :: int) \<le> 9007199254740991"
  using cyrb53_fits_53_bits [of "js_string ''hero.png''" 0]
  by (simp add: cyrb53_hero cyrb53_number_hero)

text \<open>
  C1. \<open>cyrb53\<close> computes the hash of the specification for every string and every
  integer seed: two 32-bit lanes start from the constants \<open>0xdeadbeef\<close> and
  \<open>0x41c6ce57\<close>, each combined with the seed by exclusive or; each lane is advanced per
  character by an exclusive or with the character code and a multiplication modulo
  \<open>2 ^ 32\<close> with an odd constant; two rounds of xor-shift-multiply mix the lanes; the
  result is the decimal string of (low 21 bits of the second lane) times \<open>2 ^ 32\<close>
  plus the first lane read as unsigned.
\<close>

theorem cyrb53_refines_spec:
  "cyrb53 path seed = spec_computeId path seed
   \<and> odd (2654435761 :: nat) \<and> odd (1597334677 :: nat)
   \<and> odd (2246822507 :: nat) \<and> odd (3266489909 :: nat)"
proof -
  define i1 :: int32 where "i1 = 0xdeadbeef XOR ToInt32 seed"
  define i2 :: int32 where "i2 = 0x41c6ce57 XOR ToInt32 seed"
  obtain l1 l2 where l: "cyrb53_loop path (i1, i2) = (l1, l2)"
    by (cases "cyrb53_loop path (i1, i2)")
  obtain g1 g2 where g: "cyrb53_mix (l1, l2) = (g1, g2)"
    by (cases "cyrb53_mix (l1, l2)")
  have u1: "unat i1 = 3735928559 XOR nat (seed mod 2 ^ 32)"
    by (simp add: i1_def unsigned_xor_eq unat_ToInt32)
  have u2: "unat i2 = 1103547991 XOR nat (seed mod 2 ^ 32)"
    by (simp add: i2_def unsigned_xor_eq unat_ToInt32)
  from unat_cyrb53_loop [of path i1 i2] l
  have ul: "unat l1 = spec_lane 2654435761 (unat i1) (map unat path)"
    "unat l2 = spec_lane 1597334677 (unat i2) (map unat path)"
    by simp_all
  note ug = unat_cyrb53_mix [OF g]
  have "cyrb53_number path seed = int ((unat g2 mod 2 ^ 21) * 2 ^ 32 + unat g1)"
    unfolding cyrb53_number_unat i1_def [symmetric] i2_def [symmetric] l g by simp
  moreover have "spec_computeId path seed = toString (int ((unat g2 mod 2 ^ 21) * 2 ^ 32 + unat g1))"
    unfolding spec_computeId_def Let_def u1 [symmetric] u2 [symmetric] ul [symmetric]
      ug [THEN conjunct1, symmetric] ug [THEN conjunct2, symmetric] ..
  ultimately have "cyrb53 path seed = spec_computeId path seed"
    by (simp only: cyrb53_def)
  then show ?thesis by simp
qed

theorem cyrb53_refines_spec_witness:
  "spec_computeId (js_string ''hero.png'') 0 = ''8079230315752411''"
  using cyrb53_refines_spec [of "js_string ''hero.png''" 0]
  by (simp add: cyrb53_hero)




text \<open>
  C5. The registry grows monotonically. It is empty at the start; every call either leaves
  it as it is or appends one id that was absent; after any sequence of calls the former
  registry is a prefix of the new one, so an id that is present stays present.
\<close>

theorem registry_grows_monotonically:
  "list_images_id PP_init = []
   \<and> (list_images_id (exec st c) = list_images_id st
      \<or> (\<exists>i. i \<notin> set (list_images_id st) \<and> list_images_id (exec st c) = list_images_id st @ [i]))
   \<and> (\<exists>ys. list_images_id (exec_all st cs) = list_images_id st @ ys)
   \<and> (i \<in> set (list_images_id st) \<longrightarrow> i \<in> set (list_images_id (exec_all st cs)))"
proof -
  from exec_all_registry [of st cs] obtain ys
    where "list_images_id (exec_all st cs) = list_images_id st @ ys" by blast
  then have "i \<in> set (list_images_id st) \<longrightarrow> i \<in> set (list_images_id (exec_all st cs))"
    by simp
  then show ?thesis
    using exec_registry [of st c] exec_all_registry [of st cs] by (simp add: PP_init_def)
qed

theorem registry_grows_monotonically_witness:
  "''8079230315752411'' \<in> set (list_images_id
       (exec PP_init (ImageLoad (JScene 0) (JString (js_string ''hero.png'')))))
   \<and> ''8079230315752411'' \<in> set (list_images_id
       (exec_all (exec PP_init (ImageLoad (JScene 0) (JString (js_string ''hero.png''))))
          [ImageLoad JNull (JNumber 3),
           SpriteLoadSpritesheet (JScene 1) (JString (js_string ''hero.png''))
             (JNumber 32) (JNumber 32) (JNumber 0) (JNumber 7),
           ImageLoad (JScene 0) (JString [])]))"
proof -
  have a: "''8079230315752411'' \<in> set (list_images_id
       (exec PP_init (ImageLoad (JScene 0) (JString (js_string ''hero.png'')))))"
    by (simp add: PP_init_def image_load_fresh cyrb53_hero)
  with registry_grows_monotonically [of "exec PP_init (ImageLoad (JScene 0) (JString (js_string ''hero.png'')))"
      _ _ "''8079230315752411''"]
  show ?thesis by blast
qed

text \<open>
  C6. A call of \<open>PP.assets.image.load\<close> with a scene that is not an object should
  throw before any effect. With the scene \<open>null\<close>, whose \<open>typeof\<close> is
  \<open>object\<close>, both assertions pass: the id is appended to the registry and only then
  reading \<open>scene.load\<close> throws a TypeError. The registry has changed although the call
  failed, and a later call with a scene of the engine on the same path is taken for a
  duplicate: it warns and hands nothing to the engine. (For an argument that fails its
  \<open>typeof\<close> test the call does throw with the state unchanged: \<open>image_load_rejects\<close>.)
\<close>

theorem image_load_null_scene:
  "image_load PP_init JNull (JString (js_string ''hero.png'')) =
     (Inl TypeError,
      \<lparr>list_images_id = [''8079230315752411''], console_warn = [], loader_queue = []\<rparr>)
   \<and> image_load
       \<lparr>list_images_id = [''8079230315752411''], console_warn = [], loader_queue = []\<rparr>
       (JScene 0) (JString (js_string ''hero.png'')) =
     (Inr \<lparr>asset_id = ''8079230315752411'', asset_type = ''image''\<rparr>,
      \<lparr>list_images_id = [''8079230315752411''],
       console_warn = [duplicate_warning (js_string ''hero.png'')], loader_queue = []\<rparr>)"
  by (simp add: PP_init_def image_load_null_fresh image_load_duplicate cyrb53_hero)

text \<open>
  C7, as amended. For two paths whose ids differ, starting from a registry that holds
  neither id, \<open>PP.assets.image.load\<close> on the first and then on the second returns two
  distinct ids, and both calls append their id and hand their load request to the engine.
  Paths with different ids are different paths.
\<close>

theorem register_two_paths:
  assumes "cyrb53 p1 0 \<noteq> cyrb53 p2 0"
    and "cyrb53 p1 0 \<notin> set (list_images_id st)"
    and "cyrb53 p2 0 \<notin> set (list_images_id st)"
  shows
   "(let h1 = cyrb53 p1 0; h2 = cyrb53 p2 0;
         st1 = st\<lparr>list_images_id := list_images_id st @ [h1],
                  loader_queue := loader_queue st @ [LoadImage n h1 p1]\<rparr>;
         st2 = st\<lparr>list_images_id := list_images_id st @ [h1, h2],
                  loader_queue := loader_queue st @ [LoadImage n h1 p1, LoadImage m h2 p2]\<rparr>
     in image_load st (JScene n) (JString p1) = (Inr \<lparr>asset_id = h1, asset_type = ''image''\<rparr>, st1)
      \<and> image_load st1 (JScene m) (JString p2) = (Inr \<lparr>asset_id = h2, asset_type = ''image''\<rparr>, st2)
      \<and> h1 \<noteq> h2 \<and> p1 \<noteq> p2)"
proof -
  from assms(1) have "p1 \<noteq> p2" by auto
  with assms show ?thesis
    by (simp add: Let_def image_load_fresh)
qed

theorem register_two_paths_witness:
  "image_load PP_init (JScene 0) (JString (js_string ''hero.png'')) =
     (Inr \<lparr>asset_id = ''8079230315752411'', asset_type = ''image''\<rparr>,
      \<lparr>list_images_id = [''8079230315752411''], console_warn = [],
       loader_queue = [LoadImage 0 ''8079230315752411'' (js_string ''hero.png'')]\<rparr>)
   \<and> image_load
       \<lparr>list_images_id = [''8079230315752411''], console_warn = [],
        loader_queue = [LoadImage 0 ''8079230315752411'' (js_string ''hero.png'')]\<rparr>
       (JScene 0) (JString (js_string ''a'')) =
     (Inr \<lparr>asset_id = ''7929297801672961'', asset_type = ''image''\<rparr>,
      \<lparr>list_images_id = [''8079230315752411'', ''7929297801672961''], console_warn = [],
       loader_queue = [LoadImage 0 ''8079230315752411'' (js_string ''hero.png''),
                       LoadImage 0 ''7929297801672961'' (js_string ''a'')]\<rparr>)"
  using register_two_paths [of "js_string ''hero.png''" "js_string ''a''" PP_init 0 0]
  by (simp add: PP_init_def cyrb53_hero cyrb53_a Let_def)

text \<open>
  C7 as stated, for every two distinct paths, fails: the distinct paths
  \<open>qolz1a.png\<close> and \<open>gysime.png\<close> have the same id 7546620410349312. Starting from the
  empty registry the second call is taken for a duplicate: it returns the id of the first,
  hands nothing to the engine and writes a warning.
\<close>

theorem distinct_paths_same_id:
  "js_string ''qolz1a.png'' \<noteq> js_string ''gysime.png''
   \<and> image_load PP_init (JScene 0) (JString (js_string ''qolz1a.png'')) =
     (Inr \<lparr>asset_id = ''7546620410349312'', asset_type = ''image''\<rparr>,
      \<lparr>list_images_id = [''7546620410349312''], console_warn = [],
       loader_queue = [LoadImage 0 ''7546620410349312'' (js_string ''qolz1a.png'')]\<rparr>)
   \<and> image_load
       \<lparr>list_images_id = [''7546620410349312''], console_warn = [],
        loader_queue = [LoadImage 0 ''7546620410349312'' (js_string ''qolz1a.png'')]\<rparr>
       (JScene 0) (JString (js_string ''gysime.png'')) =
     (Inr \<lparr>asset_id = ''7546620410349312'', asset_type = ''image''\<rparr>,
      \<lparr>list_images_id = [''7546620410349312''],
       console_warn = [duplicate_warning (js_string ''gysime.png'')],
       loader_queue = [LoadImage 0 ''7546620410349312'' (js_string ''qolz1a.png'')]\<rparr>)"
  by (simp add: PP_init_def paths_differ image_load_fresh image_load_duplicate
      cyrb53_qolz1a cyrb53_gysime)

text \<open>
  C8. The seed influences the hash, but not always: the path \<open>hero.png\<close> has different
  ids under the seeds 0 and 1, so there are a path and two seeds with different results;
  and since the seed enters both lanes through a 32-bit exclusive or, a seed and the same
  seed plus \<open>2 ^ 32\<close> give the same result for every path, so different seeds do not
  guarantee different results.
\<close>

theorem seed_sensitivity:
  "cyrb53 (js_string ''hero.png'') 0 \<noteq> cyrb53 (js_string ''hero.png'') 1
   \<and> (\<exists>p s1 s2. s1 \<noteq> s2 \<and> cyrb53 p s1 \<noteq> cyrb53 p s2)
   \<and> cyrb53 p (s + 4294967296) = cyrb53 p s
   \<and> (\<exists>s1 s2. s1 \<noteq> s2 \<and> cyrb53 p s1 = cyrb53 p s2)"
proof -
  have a: "cyrb53 (js_string ''hero.png'') 0 \<noteq> cyrb53 (js_string ''hero.png'') 1"
    by (simp add: cyrb53_hero cyrb53_hero_seed1)
  then have b: "\<exists>p s1 s2. s1 \<noteq> s2 \<and> cyrb53 p s1 \<noteq> cyrb53 p s2"
    by (intro exI [of _ "js_string ''hero.png''"] exI [of _ 0] exI [of _ 1]) simp
  have "(0::int) \<noteq> 4294967296 \<and> cyrb53 p 0 = cyrb53 p 4294967296"
    using cyrb53_seed_period [of p 0] by simp
  then have c: "\<exists>s1 s2. s1 \<noteq> s2 \<and> cyrb53 p s1 = cyrb53 p s2"
    by blast
  from a b c cyrb53_seed_period [of p s] show ?thesis by simp
qed

theorem seed_sensitivity_witness:
  "cyrb53 (js_string ''hero.png'') 4294967297 = ''2295361794501766''
   \<and> cyrb53 (js_string ''hero.png'') 4294967296 = ''8079230315752411''"
  using seed_sensitivity [of "js_string ''hero.png''" 1] seed_sensitivity [of "js_string ''hero.png''" 0]
  by (simp add: cyrb53_hero cyrb53_hero_seed1)

text \<open>
  C9. Images and spritesheets share one registry. After \<open>PP.assets.image.load\<close> has
  returned normally for a path, \<open>PP.assets.sprite.load_spritesheet\<close> on the same path
  (with a scene that passes the \<open>typeof\<close> test and four numbers) is taken for a
  duplicate: it writes the warning, hands nothing to the engine and leaves the registry as
  it is. The object it returns has the same id and the type \<open>sprite\<close>, while the object
  of the first call has the type \<open>image\<close>.
\<close>

theorem image_then_spritesheet_shares_registry:
  assumes "image_load st scene (JString p) = (Inr a, st1)"
    and "typeof scene' = ''object''"
    and "typeof fw = ''number''" and "typeof fh = ''number''"
    and "typeof sf = ''number''" and "typeof ef = ''number''"
  shows "load_spritesheet st1 scene' (JString p) fw fh sf ef =
           (Inr \<lparr>asset_id = asset_id a, asset_type = ''sprite''\<rparr>,
            st1\<lparr>console_warn := console_warn st1 @ [duplicate_warning p]\<rparr>)
         \<and> asset_type a = ''image'' \<and> asset_id a = cyrb53 p 0"
  using image_load_registered [OF assms(1)] assms(2-)
  by (simp add: load_spritesheet_duplicate)

theorem image_then_spritesheet_shares_registry_witness:
  "load_spritesheet
     \<lparr>list_images_id = [''8079230315752411''], console_warn = [],
      loader_queue = [LoadImage 0 ''8079230315752411'' (js_string ''hero.png'')]\<rparr>
     (JScene 0) (JString (js_string ''hero.png'')) (JNumber 32) (JNumber 32) (JNumber 0) (JNumber 7) =
   (Inr \<lparr>asset_id = ''8079230315752411'', asset_type = ''sprite''\<rparr>,
    \<lparr>list_images_id = [''8079230315752411''],
     console_warn = [duplicate_warning (js_string ''hero.png'')],
     loader_queue = [LoadImage 0 ''8079230315752411'' (js_string ''hero.png'')]\<rparr>)"
proof -
  have a: "image_load PP_init (JScene 0) (JString (js_string ''hero.png'')) =
     (Inr \<lparr>asset_id = ''8079230315752411'', asset_type = ''image''\<rparr>,
      \<lparr>list_images_id = [''8079230315752411''], console_warn = [],
       loader_queue = [LoadImage 0 ''8079230315752411'' (js_string ''hero.png'')]\<rparr>)"
    by (simp add: PP_init_def image_load_fresh cyrb53_hero)
  have b: "typeof (JScene 0) = ''object''" and c: "typeof (JNumber 32) = ''number''"
    and d: "typeof (JNumber 0) = ''number''" and e: "typeof (JNumber 7) = ''number''"
    by simp_all
  from image_then_spritesheet_shares_registry [OF a b c c d e] show ?thesis
    by (simp add: cyrb53_hero)
qed

text \<open>
  C10. The empty string is accepted. \<open>cyrb53\<close> of the empty string is the decimal string
  of the final mixing applied to the two constants combined with the seed, the loop having
  run zero times; it parses as a non-negative integer of at most \<open>2 ^ 53 - 1\<close>; with seed
  0 it is 3338908027751811. The empty string passes the \<open>typeof\<close> test of
  \<open>PP.assets.image.load\<close>, and when its id is not yet in the registry the call registers
  it and hands the load request to the engine like any other path.
\<close>

theorem empty_path_accepted:
  "cyrb53 [] seed =
     toString (let (h1, h2) = cyrb53_mix (0xdeadbeef XOR ToInt32 seed, 0x41c6ce57 XOR ToInt32 seed)
               in 4294967296 * sint (2097151 AND h2) + uint (ushr h1 0))
   \<and> parse_decimal (cyrb53 [] seed) = Some (nat (cyrb53_number [] seed))
   \<and> 0 \<le> cyrb53_number [] seed \<and> cyrb53_number [] seed \<le> 9007199254740991
   \<and> cyrb53 [] 0 = ''3338908027751811''
   \<and> typeof (JString []) = ''string''
   \<and> (cyrb53 [] 0 \<notin> set (list_images_id st) \<longrightarrow>
        image_load st (JScene n) (JString []) =
          (Inr \<lparr>asset_id = cyrb53 [] 0, asset_type = ''image''\<rparr>,
           st\<lparr>list_images_id := list_images_id st @ [cyrb53 [] 0],
              loader_queue := loader_queue st @ [LoadImage n (cyrb53 [] 0) []]\<rparr>))"
proof -
  have "cyrb53 [] seed =
     toString (let (h1, h2) = cyrb53_mix (0xdeadbeef XOR ToInt32 seed, 0x41c6ce57 XOR ToInt32 seed)
               in 4294967296 * sint (2097151 AND h2) + uint (ushr h1 0))"
    by (simp add: cyrb53_def cyrb53_number_def)
  moreover have "parse_decimal (cyrb53 [] seed) = Some (nat (cyrb53_number [] seed))"
    by (simp add: cyrb53_def parse_decimal_toString cyrb53_number_nonneg)
  ultimately show ?thesis
    by (simp add: cyrb53_number_nonneg cyrb53_number_le cyrb53_empty image_load_fresh)
qed

theorem empty_path_accepted_witness:
  "image_load PP_init (JScene 0) (JString []) =
     (Inr \<lparr>asset_id = ''3338908027751811'', asset_type = ''image''\<rparr>,
      \<lparr>list_images_id = [''3338908027751811''], console_warn = [],
       loader_queue = [LoadImage 0 ''3338908027751811'' []]\<rparr>)"
  using empty_path_accepted [of 0 PP_init 0]
  by (simp add: PP_init_def cyrb53_empty)

end
